theory Spec2Isabelle
  imports Main "HOL-Library.AList"
begin

section \<open>The schema document model of the ticker designer\<close>

text \<open>
  The development follows \<^verbatim>\<open>trunk/profit/widgets/tickerdesigner.py\<close>.
  A schema tree item is a \<^verbatim>\<open>QStandardItem\<close> with Python attributes. What the
  code reads of the Qt item is modelled explicitly: its display text, its foreground
  brush and its vector of child rows, where a row may hold no item
  (\<^verbatim>\<open>takeChild\<close> leaves the row in place and empties it).
\<close>

subsection \<open>Python values and errors\<close>

text \<open>
  The values that appear in a pickled schema. A float is only stored and copied,
  never computed with, so it is kept as an uninterpreted pair (mantissa, exponent).
  A dictionary is an association list; a key is looked up with \<open>map_of\<close>.
\<close>

datatype pyval =
    PInt int
  | PFloat int int
  | PStr string
  | PList "pyval list"
  | PDict "(string \<times> pyval) list"

datatype pyerr = KeyError | TypeError | AttributeError | RuntimeError

subsection \<open>Schema items\<close>

text \<open>The classes of the module: the base class and its four subclasses.\<close>

datatype cls = SchemaItem | CallableItem | TickerItem | FieldItem | IndexItem

text \<open>The foreground brush: the window's text colour, or the mark of setCopy / setCut.\<close>

datatype colour = Original | Blue | Red

text \<open>
  The attributes each subclass adds in its constructor. A string is a Python 2 byte
  string. The display text of an item is a string; every attribute holds whatever
  value the constructor or the schema gave it.
\<close>

datatype payload =
    Callable (name: pyval) (threadInterval: pyval) (scriptName: pyval)
      (syspathName: pyval) (execType: pyval) (srcType: pyval) (messageTypes: pyval)
  | Ticker (tickerId: pyval) (symbol: pyval) (exchange: pyval) (secType: pyval)
      (expiry: pyval) (right: pyval) (strike: pyval) (currency: pyval)
  | Field (ident: pyval)
  | Index (typeName: pyval) (parameters: pyval)

datatype item =
  Item (textOf: string) (cutSource: bool) (copySource: bool) (foreground: colour)
    (attrs: payload) (rows: "item option list")

fun classOf :: "item \<Rightarrow> cls" where
  "classOf (Item t cs cp fg (Callable a b c d e f g) rs) = CallableItem"
| "classOf (Item t cs cp fg (Ticker a b c d e f g h) rs) = TickerItem"
| "classOf (Item t cs cp fg (Field i) rs) = FieldItem"
| "classOf (Item t cs cp fg (Index tn ps) rs) = IndexItem"

subsection \<open>Insertion legality\<close>

text \<open>
  \<^verbatim>\<open>SchemaItem.rootTypes\<close> and the \<^verbatim>\<open>canInsert(self, *types)\<close> method of each
  class. The base class answers for the root level: it accepts the root types.
\<close>

definition rootTypes :: "cls list" where
  "rootTypes = [CallableItem, TickerItem]"

fun canInsert :: "cls \<Rightarrow> cls list \<Rightarrow> bool" where
  "canInsert SchemaItem types = list_ex (\<lambda>t. t \<in> set types) rootTypes"
| "canInsert CallableItem types = False"
| "canInsert TickerItem types = (FieldItem \<in> set types)"
| "canInsert FieldItem types = (IndexItem \<in> set types)"
| "canInsert IndexItem types = (IndexItem \<in> set types)"

subsection \<open>Cloning\<close>

text \<open>
  \<^verbatim>\<open>FieldItem.clone\<close>, \<^verbatim>\<open>IndexItem.clone\<close> and \<^verbatim>\<open>IndexItem.deepClone\<close>.
  A new item has both clip flags False and the original foreground
  (\<^verbatim>\<open>SchemaItem.__init__\<close>). \<open>cloneRows\<close> is the loop of \<^verbatim>\<open>FieldItem.clone\<close>
  over the immediate children; \<open>deepClone\<close> is the loop of
  \<^verbatim>\<open>IndexItem.deepClone(source, target)\<close> over the immediate children of the
  source and returns the rows it appends to the target. Calling \<^verbatim>\<open>clone\<close> on an
  empty row (None) raises AttributeError, as does \<^verbatim>\<open>parameters.copy()\<close> on a
  value that is no dictionary. CallableItem and TickerItem define no \<^verbatim>\<open>clone\<close>
  and inherit \<^verbatim>\<open>QStandardItem.clone\<close>, whose result is a plain
  \<^verbatim>\<open>QStandardItem\<close> with the same text and no rows: an item of no class of this
  module, which the development does not represent. A clone therefore ends in one
  of three ways: with the new item, with an exception, or with a plain item in the
  copy (\<open>PlainItem\<close>), beyond which the development does not follow.
\<close>

datatype stop = Raised pyerr | PlainItem

fun clone :: "item \<Rightarrow> stop + item"
  and cloneRows :: "item option list \<Rightarrow> stop + item option list"
  and deepClone :: "item option list \<Rightarrow> stop + item option list"
where
  "clone (Item t cs cp fg (Callable a b c d e f g) rs) = Inl PlainItem"
| "clone (Item t cs cp fg (Ticker a b c d e f g h) rs) = Inl PlainItem"
| "clone (Item t cs cp fg (Field i) rs) =
     (case cloneRows rs of
        Inl e \<Rightarrow> Inl e
      | Inr rs' \<Rightarrow> Inr (Item t False False Original (Field i) rs'))"
| "clone (Item t cs cp fg (Index tn ps) rs) =
     (case ps of
        PDict d \<Rightarrow>
          (case deepClone rs of
             Inl e \<Rightarrow> Inl e
           | Inr rs' \<Rightarrow> Inr (Item t False False Original (Index tn (PDict d)) rs'))
      | _ \<Rightarrow> Inl (Raised AttributeError))"
| "cloneRows [] = Inr []"
| "cloneRows (None # rs) = Inl (Raised AttributeError)"
| "cloneRows (Some child # rs) =
     (case clone child of
        Inl e \<Rightarrow> Inl e
      | Inr c \<Rightarrow>
          (case cloneRows rs of
             Inl e \<Rightarrow> Inl e
           | Inr rs' \<Rightarrow> Inr (Some c # rs')))"
| "deepClone [] = Inr []"
| "deepClone (None # rs) = Inl (Raised AttributeError)"
| "deepClone (Some (Item t cs cp fg a crs) # rs) =
     (case clone (Item t cs cp fg a crs) of
        Inl e \<Rightarrow> Inl e
      | Inr (Item t' cs' cp' fg' a' rs1) \<Rightarrow>
          (case deepClone crs of
             Inl e \<Rightarrow> Inl e
           | Inr rs2 \<Rightarrow>
               (case deepClone rs of
                  Inl e \<Rightarrow> Inl e
                | Inr rest \<Rightarrow> Inr (Some (Item t' cs' cp' fg' a' (rs1 @ rs2)) # rest))))"

text \<open>An IndexItem as \<^verbatim>\<open>IndexItem(typeName)\<close> constructs it, with the given rows.\<close>

definition newIndexItem :: "string \<Rightarrow> item option list \<Rightarrow> item" where
  "newIndexItem tn rs = Item tn False False Original (Index (PStr tn) (PDict [])) rs"


subsection \<open>Serialization\<close>

text \<open>\<^verbatim>\<open>data.get(key, default)\<close> and \<^verbatim>\<open>data[key]\<close> on a dictionary.\<close>

definition dict_get :: "(string \<times> pyval) list \<Rightarrow> string \<Rightarrow> pyval \<Rightarrow> pyval" where
  "dict_get d k dflt = (case map_of d k of None \<Rightarrow> dflt | Some v \<Rightarrow> v)"

definition dict_item :: "(string \<times> pyval) list \<Rightarrow> string \<Rightarrow> pyerr + pyval" where
  "dict_item d k = (case map_of d k of None \<Rightarrow> Inl KeyError | Some v \<Rightarrow> Inr v)"

text \<open>
  The \<^verbatim>\<open>toSchema\<close> method of the four classes, dispatched on the class of the
  item; \<open>toSchemaRows\<close> is the list comprehension over \<^verbatim>\<open>immediateChildren\<close>,
  where an empty row is None and has no \<^verbatim>\<open>toSchema\<close>. The keys of a
  \<^verbatim>\<open>dict(...)\<close> are listed in the order of the source.
\<close>

fun toSchema :: "item \<Rightarrow> pyerr + pyval"
  and toSchemaRows :: "item option list \<Rightarrow> pyerr + pyval list"
where
  "toSchema (Item t cs cp fg (Callable n ti sn sp et sr mt) rs) =
     Inr (PDict [(''name'', n), (''threadInterval'', ti), (''scriptName'', sn),
                 (''syspathName'', sp), (''execType'', et), (''srcType'', sr),
                 (''messageTypes'', mt)])"
| "toSchema (Item t cs cp fg (Ticker ti sy ex se ep ri sk cu) rs) =
     (case toSchemaRows rs of
        Inl e \<Rightarrow> Inl e
      | Inr fs \<Rightarrow>
          Inr (PDict [(''tickerId'', ti), (''symbol'', sy), (''exchange'', ex),
                      (''secType'', se), (''expiry'', ep), (''right'', ri),
                      (''strike'', sk), (''currency'', cu), (''fields'', PList fs)]))"
| "toSchema (Item t cs cp fg (Field i) rs) =
     (case toSchemaRows rs of
        Inl e \<Rightarrow> Inl e
      | Inr ixs \<Rightarrow> Inr (PDict [(''name'', PStr t), (''id'', i), (''indexes'', PList ixs)]))"
| "toSchema (Item t cs cp fg (Index tn ps) rs) =
     (case ps of
        PDict d \<Rightarrow>
          (case toSchemaRows rs of
             Inl e \<Rightarrow> Inl e
           | Inr ixs \<Rightarrow>
               Inr (PDict [(''typeName'', tn), (''indexes'', PList ixs),
                           (''parameters'', PDict d), (''name'', PStr t)]))
      | _ \<Rightarrow> Inl AttributeError)"
| "toSchemaRows [] = Inr []"
| "toSchemaRows (None # rs) = Inl AttributeError"
| "toSchemaRows (Some child # rs) =
     (case toSchema child of
        Inl e \<Rightarrow> Inl e
      | Inr s \<Rightarrow>
          (case toSchemaRows rs of
             Inl e \<Rightarrow> Inl e
           | Inr ss \<Rightarrow> Inr (s # ss)))"

text \<open>
  A \<^verbatim>\<open>for\<close> loop over a schema value that builds one item from each element:
  \<open>build\<close> is applied to the elements of a list in order and stops at the first
  error. Iterating a dictionary or a string yields strings, on which every
  \<^verbatim>\<open>fromSchema\<close> raises TypeError at its first subscript; iterating an empty
  one yields nothing; a number is not iterable.
\<close>

fun buildAll :: "(pyval \<Rightarrow> pyerr + item) \<Rightarrow> pyval list \<Rightarrow> pyerr + item option list" where
  "buildAll build [] = Inr []"
| "buildAll build (x # xs) =
     (case build x of
        Inl e \<Rightarrow> Inl e
      | Inr it \<Rightarrow>
          (case buildAll build xs of
             Inl e \<Rightarrow> Inl e
           | Inr its \<Rightarrow> Inr (Some it # its)))"

fun buildEach :: "(pyval \<Rightarrow> pyerr + item) \<Rightarrow> pyval \<Rightarrow> pyerr + item option list" where
  "buildEach build (PList xs) = buildAll build xs"
| "buildEach build (PDict kvs) = (if kvs = [] then Inr [] else Inl TypeError)"
| "buildEach build (PStr s) = (if s = [] then Inr [] else Inl TypeError)"
| "buildEach build (PInt n) = Inl TypeError"
| "buildEach build (PFloat m e) = Inl TypeError"

text \<open>
  \<^verbatim>\<open>SchemaItem.__init__(self, text)\<close> hands its argument to
  \<^verbatim>\<open>QStandardItem.__init__\<close>, which PyQt resolves among the overloads of the
  constructor: a string is the display text of an item without rows; an integer
  selects \<^verbatim>\<open>QStandardItem(int rows, int columns = 1)\<close>, an item with an empty
  text and that many empty rows (none for a negative number); no overload takes a
  float, a list or a dictionary. The result is the text and the rows of the new
  item.
\<close>

definition QStandardItem_init :: "pyval \<Rightarrow> pyerr + string \<times> item option list" where
  "QStandardItem_init arg =
     (case arg of
        PStr s \<Rightarrow> Inr (s, [])
      | PInt n \<Rightarrow> Inr ([], replicate (nat n) None)
      | _ \<Rightarrow> Inl TypeError)"

text \<open>
  \<^verbatim>\<open>IndexItem.fromSchema\<close>. The constructor keeps its argument as
  \<^verbatim>\<open>typeName\<close>; \<^verbatim>\<open>setText\<close> takes a string, anything else is a TypeError;
  the parameters are stored as they come; the items of the schema are appended after
  the rows the constructor made. \<open>fromSchema_Indexes\<close> is its loop over the elements
  of a list of index schemas.
\<close>

function fromSchema_Index :: "pyval \<Rightarrow> pyerr + item"
  and fromSchema_Indexes :: "pyval list \<Rightarrow> pyerr + item option list"
where
  "fromSchema_Index (PDict d) =
     (case map_of d ''typeName'' of
        None \<Rightarrow> Inl KeyError
      | Some tn \<Rightarrow>
          (case QStandardItem_init tn of
             Inl e \<Rightarrow> Inl e
           | Inr made \<Rightarrow>
               (case dict_get d ''name'' tn of
                  PStr n \<Rightarrow>
                    (case (case dict_get d ''indexes'' (PList []) of
                             PList xs \<Rightarrow> fromSchema_Indexes xs
                           | PDict kvs \<Rightarrow> if kvs = [] then Inr [] else Inl TypeError
                           | PStr s \<Rightarrow> if s = [] then Inr [] else Inl TypeError
                           | _ \<Rightarrow> Inl TypeError) of
                       Inl e \<Rightarrow> Inl e
                     | Inr rs \<Rightarrow>
                         Inr (Item n False False Original
                                (Index tn (dict_get d ''parameters'' (PDict [])))
                                (snd made @ rs)))
                | _ \<Rightarrow> Inl TypeError)))"
| "fromSchema_Index (PInt n) = Inl TypeError"
| "fromSchema_Index (PFloat m e) = Inl TypeError"
| "fromSchema_Index (PStr s) = Inl TypeError"
| "fromSchema_Index (PList xs) = Inl TypeError"
| "fromSchema_Indexes [] = Inr []"
| "fromSchema_Indexes (x # xs) =
     (case fromSchema_Index x of
        Inl e \<Rightarrow> Inl e
      | Inr it \<Rightarrow>
          (case fromSchema_Indexes xs of
             Inl e \<Rightarrow> Inl e
           | Inr its \<Rightarrow> Inr (Some it # its)))"
  by pat_completeness auto
termination
proof (relation "measure (\<lambda>a. case a of Inl v \<Rightarrow> size v | Inr xs \<Rightarrow> size_list size xs)")
  show "wf (measure (\<lambda>a. case a of Inl v \<Rightarrow> size v | Inr xs \<Rightarrow> size_list size xs))"
    by simp
next
  fix d :: "(string \<times> pyval) list" and x2 x3 x xs
  assume "dict_get d ''indexes'' (PList []) = PList xs"
  have look: "map_of kvs k = Some v \<Longrightarrow> size v \<le> size_list (size_prod (\<lambda>_. 0) size) kvs"
    for kvs :: "(string \<times> pyval) list" and k v
    by (induction kvs) (auto split: if_splits)
  show "(Inr xs, Inl (PDict d)) \<in> measure (\<lambda>a. case a of Inl v \<Rightarrow> size v | Inr xs \<Rightarrow> size_list size xs)"
  proof (cases "map_of d ''indexes''")
    case None
    with \<open>dict_get d ''indexes'' (PList []) = PList xs\<close> show ?thesis
      by (simp add: dict_get_def)
  next
    case (Some v)
    with \<open>dict_get d ''indexes'' (PList []) = PList xs\<close> have "v = PList xs"
      by (simp add: dict_get_def)
    with Some look [of d "''indexes''" v] show ?thesis by simp
  qed
qed auto

text \<open>
  \<^verbatim>\<open>FieldItem.fromSchema\<close>, \<^verbatim>\<open>TickerItem.fromSchema\<close> and
  \<^verbatim>\<open>CallableItem.fromSchema\<close>. Subscripting a value that is no dictionary is a
  TypeError. The arguments of the TickerItem constructor are evaluated in the order
  written, so a missing \<^verbatim>\<open>tickerId\<close> or \<^verbatim>\<open>symbol\<close> is reported before a
  symbol that no overload of the item constructor takes. The ticker id, the symbol
  and the name of a callable are kept as they come.
\<close>

fun fromSchema_Field :: "pyval \<Rightarrow> pyerr + item" where
  "fromSchema_Field (PDict d) =
     (case map_of d ''name'' of
        None \<Rightarrow> Inl KeyError
      | Some n \<Rightarrow>
          (case QStandardItem_init n of
             Inl e \<Rightarrow> Inl e
           | Inr made \<Rightarrow>
               (case map_of d ''id'' of
                  None \<Rightarrow> Inl KeyError
                | Some i \<Rightarrow>
                    (case buildEach fromSchema_Index (dict_get d ''indexes'' (PList [])) of
                       Inl e \<Rightarrow> Inl e
                     | Inr rs \<Rightarrow>
                         Inr (Item (fst made) False False Original (Field i)
                                (snd made @ rs))))))"
| "fromSchema_Field _ = Inl TypeError"

definition fromSchema_Ticker :: "(string \<times> pyval) list \<Rightarrow> pyerr + item" where
  "fromSchema_Ticker d =
     (case map_of d ''tickerId'' of
        None \<Rightarrow> Inl KeyError
      | Some ti \<Rightarrow>
          (case map_of d ''symbol'' of
             None \<Rightarrow> Inl KeyError
           | Some sy \<Rightarrow>
               (case QStandardItem_init sy of
                  Inl e \<Rightarrow> Inl e
                | Inr made \<Rightarrow>
                    (case buildEach fromSchema_Field (dict_get d ''fields'' (PList [])) of
                       Inl e \<Rightarrow> Inl e
                     | Inr rs \<Rightarrow>
                         Inr (Item (fst made) False False Original
                                (Ticker ti sy (dict_get d ''exchange'' (PStr []))
                                   (dict_get d ''secType'' (PStr []))
                                   (dict_get d ''expiry'' (PStr []))
                                   (dict_get d ''right'' (PStr []))
                                   (dict_get d ''strike'' (PFloat 0 0))
                                   (dict_get d ''currency'' (PStr [])))
                                (snd made @ rs))))))"

definition fromSchema_Callable :: "(string \<times> pyval) list \<Rightarrow> pyerr + item" where
  "fromSchema_Callable d =
     (let n = dict_get d ''name'' (PStr ''Unknown'')
      in (case QStandardItem_init n of
            Inl e \<Rightarrow> Inl e
          | Inr made \<Rightarrow>
              Inr (Item (fst made) False False Original
                     (Callable n (dict_get d ''threadInterval'' (PInt 0))
                        (dict_get d ''scriptName'' (PStr []))
                        (dict_get d ''syspathName'' (PStr []))
                        (dict_get d ''execType'' (PStr []))
                        (dict_get d ''srcType'' (PStr []))
                        (dict_get d ''messageTypes'' (PList [])))
                     (snd made))))"

subsection \<open>The designer window\<close>

text \<open>
  An item of the model is addressed by its path: the row under the invisible root,
  then the row under that item, and so on. The invisible root itself is not a schema
  item. A Python reference to an item (\<^verbatim>\<open>editItem\<close>, \<^verbatim>\<open>clipItem\<close>) is None, or
  the path of the item while it is in the model, or an object that has left the
  model, with the attributes it had then. \<open>Gone\<close> is an object the model has deleted
  (\<^verbatim>\<open>removeRow\<close>, \<^verbatim>\<open>clear\<close>): its Python attributes can still be read, and a
  call into Qt raises RuntimeError. \<open>Taken\<close> is an object that was taken out of its
  parent (\<^verbatim>\<open>takeChild\<close>) and not put back: it is alive, with no parent and no
  model. The development follows what is read of a taken object, and does not
  follow the handlers that would change it or put it back.
\<close>

type_synonym path = "nat list"

datatype itemRef = NoItem | ItemAt path | Gone item | Taken item

fun itemAt :: "item option list \<Rightarrow> path \<Rightarrow> item option" where
  "itemAt rs [] = None"
| "itemAt rs (r # p) =
     (if r < length rs
      then (case rs ! r of
              None \<Rightarrow> None
            | Some it \<Rightarrow> if p = [] then Some it else itemAt (rows it) p)
      else None)"

text \<open>The rows under a parent: the rows of the model for the invisible root.\<close>

definition rowsAt :: "item option list \<Rightarrow> path \<Rightarrow> item option list option" where
  "rowsAt rs p = (if p = [] then Some rs else map_option rows (itemAt rs p))"

fun setRows :: "item \<Rightarrow> item option list \<Rightarrow> item" where
  "setRows (Item t cs cp fg a rs) rs' = Item t cs cp fg a rs'"

text \<open>
  \<open>atRows p f\<close> changes the rows under the parent at \<open>p\<close> by \<open>f\<close>;
  \<open>modifyAt p g\<close> changes the item at \<open>p\<close> by \<open>g\<close>. Neither changes a model in which
  the path leads nowhere.
\<close>

fun atRows :: "path \<Rightarrow> (item option list \<Rightarrow> item option list) \<Rightarrow> item option list \<Rightarrow> item option list" where
  "atRows [] f rs = f rs"
| "atRows (r # p) f rs =
     (if r < length rs
      then (case rs ! r of
              None \<Rightarrow> rs
            | Some it \<Rightarrow> rs[r := Some (setRows it (atRows p f (rows it)))])
      else rs)"

fun modifyAt :: "path \<Rightarrow> (item \<Rightarrow> item) \<Rightarrow> item option list \<Rightarrow> item option list" where
  "modifyAt [] g rs = rs"
| "modifyAt (r # p) g rs =
     (if r < length rs
      then (case rs ! r of
              None \<Rightarrow> rs
            | Some it \<Rightarrow>
                if p = [] then rs[r := Some (g it)]
                else rs[r := Some (setRows it (modifyAt p g (rows it)))])
      else rs)"

text \<open>What a reference refers to, as far as Python attributes go.\<close>

fun refItem :: "item option list \<Rightarrow> itemRef \<Rightarrow> item option" where
  "refItem m NoItem = None"
| "refItem m (ItemAt p) = itemAt m p"
| "refItem m (Gone it) = Some it"
| "refItem m (Taken it) = Some it"



definition removeRow :: "nat \<Rightarrow> item option list \<Rightarrow> item option list" where
  "removeRow r rs = take r rs @ drop (Suc r) rs"

definition appendRow :: "item \<Rightarrow> item option list \<Rightarrow> item option list" where
  "appendRow it rs = rs @ [Some it]"

record designer =
  model :: "item option list"
  editItem :: itemRef
  clipItem :: itemRef
  actionMoveUp :: bool
  actionMoveDown :: bool
  actionInsertIndex :: bool
  actionInsertField :: bool
  actionCut :: bool
  actionDelete :: bool
  actionCopy :: bool
  actionPaste :: bool

text \<open>The capability methods of the classes.\<close>

fun canCopy :: "cls \<Rightarrow> bool" where
  "canCopy FieldItem = True"
| "canCopy IndexItem = True"
| "canCopy c = False"

fun canCut :: "cls \<Rightarrow> bool" where
  "canCut FieldItem = True"
| "canCut IndexItem = True"
| "canCut c = False"

definition canDelete :: "cls \<Rightarrow> bool" where
  "canDelete c = True"

text \<open>\<^verbatim>\<open>canPaste(self, item)\<close>: an \<^verbatim>\<open>isinstance\<close> test on the clip, which may be None.\<close>

fun canPaste :: "cls \<Rightarrow> cls option \<Rightarrow> bool" where
  "canPaste TickerItem clip = (clip = Some FieldItem)"
| "canPaste FieldItem clip = (clip = Some IndexItem)"
| "canPaste IndexItem clip = (clip = Some IndexItem)"
| "canPaste c clip = False"

text \<open>
  \<^verbatim>\<open>enableActions(index)\<close>. The index is None, or the index of an item, given by
  the path of the item; the index of an item that is in no model is invalid, and so
  is here a path that leads to no item.
\<close>

definition enableActions :: "designer \<Rightarrow> path option \<Rightarrow> designer" where
  "enableActions st index =
     (case (case index of None \<Rightarrow> None | Some p \<Rightarrow> map_option (Pair p) (itemAt (model st) p)) of
        None \<Rightarrow>
          st\<lparr>actionMoveUp := False, actionMoveDown := False, actionInsertIndex := False,
             actionInsertField := False, actionCut := False, actionDelete := False,
             actionCopy := False, actionPaste := False\<rparr>
      | Some (p, it) \<Rightarrow>
          (let row = last p;
               siblings = (case rowsAt (model st) (butlast p) of None \<Rightarrow> [] | Some rs \<Rightarrow> rs);
               up = (1 \<le> row);
               down = (row + 1 < length siblings);
               clip = refItem (model st) (clipItem st);
               paste = canPaste (classOf it) (map_option classOf clip);
               paste' = (if (case clip of None \<Rightarrow> False | Some c \<Rightarrow> cutSource c)
                            \<and> clipItem st = ItemAt p
                         then False else paste)
           in st\<lparr>actionMoveUp := up, actionMoveDown := down,
                 actionInsertIndex := canInsert (classOf it) [IndexItem],
                 actionInsertField := canInsert (classOf it) [FieldItem],
                 actionCut := canCut (classOf it), actionDelete := canDelete (classOf it),
                 actionCopy := canCopy (classOf it), actionPaste := paste'\<rparr>))"

text \<open>
  \<^verbatim>\<open>resetSchema\<close>: \<^verbatim>\<open>model.clear()\<close> deletes every item, and the references
  \<^verbatim>\<open>editItem\<close> and \<^verbatim>\<open>clipItem\<close>, which the method does not touch, are left
  holding deleted objects.
\<close>

definition goneRef :: "item option list \<Rightarrow> itemRef \<Rightarrow> itemRef" where
  "goneRef m r =
     (case r of
        ItemAt p \<Rightarrow> (case itemAt m p of None \<Rightarrow> NoItem | Some it \<Rightarrow> Gone it)
      | _ \<Rightarrow> r)"


definition resetSchema :: "designer \<Rightarrow> designer" where
  "resetSchema st =
     enableActions
       (st\<lparr>model := [], editItem := goneRef (model st) (editItem st),
            clipItem := goneRef (model st) (clipItem st)\<rparr>) None"

text \<open>
  The property \<^verbatim>\<open>children\<close> of \<^verbatim>\<open>SchemaItem\<close> yields every descendant of an
  item, each child before its own children. \<open>childrenOf q i rs\<close> lists the descendants
  below the rows \<open>rs\<close>, which start at row \<open>i\<close> of the item at path \<open>q\<close>, each with its
  path. On an empty row the generator yields None and then raises AttributeError
  (\<^verbatim>\<open>child.children\<close>); \<open>hasEmptyRow\<close> says that this happens somewhere below the
  rows.
\<close>

fun childrenOf :: "path \<Rightarrow> nat \<Rightarrow> item option list \<Rightarrow> (path \<times> item) list" where
  "childrenOf q i [] = []"
| "childrenOf q i (None # rs) = childrenOf q (Suc i) rs"
| "childrenOf q i (Some (Item t cs cp fg a crs) # rs) =
     (q @ [i], Item t cs cp fg a crs) # childrenOf (q @ [i]) 0 crs @ childrenOf q (Suc i) rs"

fun hasEmptyRow :: "item option list \<Rightarrow> bool" where
  "hasEmptyRow [] = False"
| "hasEmptyRow (None # rs) = True"
| "hasEmptyRow (Some (Item t cs cp fg a crs) # rs) = (hasEmptyRow crs \<or> hasEmptyRow rs)"

text \<open>
  \<^verbatim>\<open>addCallableItem\<close>, \<^verbatim>\<open>addTickerItem\<close> and \<^verbatim>\<open>addSchemaItem\<close>. The keyword
  arguments are a dictionary. \<^verbatim>\<open>addTickerItem\<close> loads the icon of the new ticker
  before it appends it, and \<^verbatim>\<open>loadIcon\<close> starts with \<^verbatim>\<open>self.symbol.lower()\<close>,
  which a symbol that is no string does not have. \<^verbatim>\<open>addSchemaItem\<close> catches a
  KeyError of either attempt, also one raised inside \<^verbatim>\<open>fromSchema\<close>, and ends in
  \<^verbatim>\<open>raise NotImplemented(str(kwds))\<close>; \<^verbatim>\<open>NotImplemented\<close> is not callable, so the
  exception that leaves is a TypeError.
\<close>

definition addCallableItem :: "designer \<Rightarrow> (string \<times> pyval) list \<Rightarrow> pyerr + designer" where
  "addCallableItem st kwds =
     (case fromSchema_Callable kwds of
        Inl e \<Rightarrow> Inl e
      | Inr it \<Rightarrow> Inr (st\<lparr>model := appendRow it (model st)\<rparr>))"

definition addTickerItem :: "designer \<Rightarrow> (string \<times> pyval) list \<Rightarrow> pyerr + designer" where
  "addTickerItem st kwds =
     (case fromSchema_Ticker kwds of
        Inl e \<Rightarrow> Inl e
      | Inr it \<Rightarrow>
          (case attrs it of
             Ticker ti (PStr sy) ex se ep ri sk cu \<Rightarrow>
               Inr (st\<lparr>model := appendRow it (model st)\<rparr>)
           | _ \<Rightarrow> Inl AttributeError))"

definition addSchemaItem :: "designer \<Rightarrow> (string \<times> pyval) list \<Rightarrow> pyerr + designer" where
  "addSchemaItem st kwds =
     (case (case dict_item kwds ''execType'' of
              Inl e \<Rightarrow> Inl e
            | Inr hasExec \<Rightarrow> addCallableItem st kwds) of
        Inr st' \<Rightarrow> Inr st'
      | Inl KeyError \<Rightarrow>
          (case (case dict_item kwds ''tickerId'' of
                   Inl e \<Rightarrow> Inl e
                 | Inr hasTickerId \<Rightarrow> addTickerItem st kwds) of
             Inr st' \<Rightarrow> Inr st'
           | Inl KeyError \<Rightarrow> Inl TypeError
           | Inl e \<Rightarrow> Inl e)
      | Inl e \<Rightarrow> Inl e)"

text \<open>
  \<^verbatim>\<open>readSchema\<close>. The loop of its \<^verbatim>\<open>try\<close> block,
  \<^verbatim>\<open>for data in schema: self.addSchemaItem(**data)\<close>, is \<open>addSchemaItems\<close> over a
  list and \<open>readLoop\<close> over any value; \<^verbatim>\<open>**data\<close> needs a dictionary, and a key
  \<^verbatim>\<open>self\<close> in it clashes with the first parameter of the method. The loop gives
  the window it reached and the exception that stopped it, if any. The handler of
  the \<^verbatim>\<open>try\<close> block catches any exception of the loop, warns and calls
  \<^verbatim>\<open>resetSchema\<close>. When the loop has raised nothing, the \<^verbatim>\<open>else\<close> block runs,
  outside the reach of the handler: for each row of the invisible root it walks
  \<^verbatim>\<open>item.children\<close> to set the icons, and the walk raises AttributeError at an
  empty row; that exception leaves \<^verbatim>\<open>readSchema\<close>, and the model stays as the
  loop built it. \<open>readSchema\<close> gives the window afterwards, and the exception that
  was caught or that left the method, if any.
\<close>

fun addSchemaItems :: "designer \<Rightarrow> pyval list \<Rightarrow> designer \<times> pyerr option" where
  "addSchemaItems st [] = (st, None)"
| "addSchemaItems st (PDict d # rest) =
     (if ''self'' \<in> set (map fst d) then (st, Some TypeError)
      else (case addSchemaItem st d of
              Inl e \<Rightarrow> (st, Some e)
            | Inr st' \<Rightarrow> addSchemaItems st' rest))"
| "addSchemaItems st (x # rest) = (st, Some TypeError)"

fun readLoop :: "designer \<Rightarrow> pyval \<Rightarrow> designer \<times> pyerr option" where
  "readLoop st (PList xs) = addSchemaItems st xs"
| "readLoop st (PDict kvs) = (st, if kvs = [] then None else Some TypeError)"
| "readLoop st (PStr s) = (st, if s = [] then None else Some TypeError)"
| "readLoop st (PInt n) = (st, Some TypeError)"
| "readLoop st (PFloat m e) = (st, Some TypeError)"

definition readSchema :: "designer \<Rightarrow> pyval \<Rightarrow> designer \<times> pyerr option" where
  "readSchema st sch =
     (case readLoop st sch of
        (st', Some ex) \<Rightarrow> (resetSchema st', Some ex)
      | (st', None) \<Rightarrow>
          (st', if hasEmptyRow (model st') then Some AttributeError else None))"

text \<open>\<^verbatim>\<open>schema()\<close>: the schema of every row of the invisible root.\<close>

definition schema :: "designer \<Rightarrow> pyerr + pyval" where
  "schema st = (case toSchemaRows (model st) of Inl e \<Rightarrow> Inl e | Inr ss \<Rightarrow> Inr (PList ss))"

subsection \<open>Documents the editor builds\<close>

text \<open>
  What the insert and paste actions and \<^verbatim>\<open>fromSchema\<close> can build: every row
  holds an item; the rows of the root hold callables, which have no rows, and tickers;
  a ticker holds fields, a field holds indexes, an index holds indexes; the name of a
  callable and the symbol of a ticker are strings and are the display text of the
  item (the handlers \<^verbatim>\<open>on_callableName_textEdited\<close> and
  \<^verbatim>\<open>on_symbolEdit_textEdited\<close> set both together); the type name of an index is a
  string and its parameters are a dictionary.
\<close>

fun wfIndex :: "item \<Rightarrow> bool"
  and wfIndexRows :: "item option list \<Rightarrow> bool"
where
  "wfIndex (Item t cs cp fg a rs) =
     ((case a of Index (PStr tn) (PDict d) \<Rightarrow> True | _ \<Rightarrow> False) \<and> wfIndexRows rs)"
| "wfIndexRows [] = True"
| "wfIndexRows (None # rs) = False"
| "wfIndexRows (Some child # rs) = (wfIndex child \<and> wfIndexRows rs)"

fun wfField :: "item \<Rightarrow> bool" where
  "wfField (Item t cs cp fg a rs) =
     ((case a of Field i \<Rightarrow> True | _ \<Rightarrow> False) \<and> wfIndexRows rs)"

fun wfFieldRows :: "item option list \<Rightarrow> bool" where
  "wfFieldRows [] = True"
| "wfFieldRows (None # rs) = False"
| "wfFieldRows (Some child # rs) = (wfField child \<and> wfFieldRows rs)"

fun wfRoot :: "item \<Rightarrow> bool" where
  "wfRoot (Item t cs cp fg (Callable n ti sn sp et sr mt) rs) = (n = PStr t \<and> rs = [])"
| "wfRoot (Item t cs cp fg (Ticker ti sy ex se ep ri sk cu) rs) = (sy = PStr t \<and> wfFieldRows rs)"
| "wfRoot (Item t cs cp fg a rs) = False"

fun wfModel :: "item option list \<Rightarrow> bool" where
  "wfModel [] = True"
| "wfModel (None # rs) = False"
| "wfModel (Some it # rs) = (wfRoot it \<and> wfModel rs)"

text \<open>
  The transient clip markers of a tree, cleared: both flags False and the original
  foreground on every item.
\<close>

fun unmark :: "item \<Rightarrow> item"
  and unmarkRows :: "item option list \<Rightarrow> item option list"
where
  "unmark (Item t cs cp fg a rs) = Item t False False Original a (unmarkRows rs)"
| "unmarkRows [] = []"
| "unmarkRows (None # rs) = None # unmarkRows rs"
| "unmarkRows (Some child # rs) = Some (unmark child) # unmarkRows rs"

subsection \<open>Example documents\<close>

text \<open>A window with an empty model, no selection, no clip and every edit action disabled.\<close>

definition emptyDesigner :: designer where
  "emptyDesigner =
     \<lparr>model = [], editItem = NoItem, clipItem = NoItem, actionMoveUp = False,
      actionMoveDown = False, actionInsertIndex = False, actionInsertField = False,
      actionCut = False, actionDelete = False, actionCopy = False, actionPaste = False\<rparr>"

text \<open>
  A ticker with one field that holds an index with a child index, the second index
  marked as copied, and a callable.
\<close>

definition exampleTicker :: item where
  "exampleTicker =
     Item ''AAPL'' False False Original
       (Ticker (PInt 100) (PStr ''AAPL'') (PStr ''SMART'') (PStr ''STK'') (PStr []) (PStr [])
          (PFloat 0 0) (PStr ''USD''))
       [Some (Item ''last'' False False Original (Field (PInt 4))
          [Some (Item ''EMA-1'' False False Original
                   (Index (PStr ''EMA'') (PDict [(''series'', PStr ''last''), (''periods'', PInt 9)]))
             [Some (Item ''MACD-1'' False True Blue
                      (Index (PStr ''MACD'') (PDict [(''series'', PStr ''EMA-1'')])) [])])])]"

definition exampleCallable :: item where
  "exampleCallable =
     Item ''job'' False False Original
       (Callable (PStr ''job'') (PInt 5) (PStr ''run.py'') (PStr []) (PStr ''thread'')
          (PStr ''script'') (PList [])) []"

definition exampleDesigner :: designer where
  "exampleDesigner = emptyDesigner\<lparr>model := [Some exampleTicker, Some exampleCallable]\<rparr>"





subsection \<open>Rename propagation\<close>

text \<open>
  The inner loop of \<^verbatim>\<open>updateLines\<close> over \<^verbatim>\<open>child.parameters.items()\<close>: the
  items are a list made before the loop, the assignment \<^verbatim>\<open>parameters[key] = current\<close>
  updates the dictionary, and \<^verbatim>\<open>modified\<close> counts the assignments. In a dictionary
  kept as an association list the first entry of a key is its entry.
\<close>

fun updateItems :: "string \<Rightarrow> string \<Rightarrow> (string \<times> pyval) list \<Rightarrow> (string \<times> pyval) list \<Rightarrow> nat
    \<Rightarrow> (string \<times> pyval) list \<times> nat" where
  "updateItems previous current [] d modified = (d, modified)"
| "updateItems previous current ((key, val) # kvs) d modified =
     (if val = PStr previous
      then updateItems previous current kvs (AList.update key (PStr current) d) (Suc modified)
      else updateItems previous current kvs d modified)"

fun setParameters :: "pyval \<Rightarrow> item \<Rightarrow> item" where
  "setParameters ps (Item t cs cp fg (Index tn old) rs) = Item t cs cp fg (Index tn ps) rs"
| "setParameters ps it = it"

text \<open>
  The outer loop over the selected children, each given by its path. An item whose
  \<^verbatim>\<open>parameters\<close> is no dictionary has no \<^verbatim>\<open>items\<close>: the loop stops there with
  an AttributeError and keeps what it has rewritten.
\<close>

fun updateChildren :: "string \<Rightarrow> string \<Rightarrow> path list \<Rightarrow> item option list \<Rightarrow> nat
    \<Rightarrow> (item option list \<times> nat) \<times> pyerr option" where
  "updateChildren previous current [] m modified = ((m, modified), None)"
| "updateChildren previous current (q # qs) m modified =
     (case itemAt m q of
        Some (Item t cs cp fg (Index tn (PDict d)) rs) \<Rightarrow>
          (case updateItems previous current (AList.clearjunk d) d modified of
             (d', modified') \<Rightarrow>
               updateChildren previous current qs
                 (modifyAt q (setParameters (PDict d')) m) modified')
      | _ \<Rightarrow> ((m, modified), Some AttributeError))"

text \<open>
  \<^verbatim>\<open>updateLines(item, previous, current)\<close>. The root of the item is the row of the
  invisible root its path starts with. The predicate keeps the children that are not
  the item itself and have a \<^verbatim>\<open>parameters\<close> attribute, which the IndexItems have.
  The result is the model afterwards with the count, and the exception raised, if any.
  An item that was taken out of the model is its own root: the loop runs over the
  items below it and leaves the model alone.
\<close>

definition updateLines :: "item option list \<Rightarrow> itemRef \<Rightarrow> string \<Rightarrow> string
    \<Rightarrow> (item option list \<times> nat) \<times> pyerr option" where
  "updateLines m item previous current =
     (case item of
        NoItem \<Rightarrow> ((m, 0), None)
      | Gone it \<Rightarrow> ((m, 0), Some RuntimeError)
      | Taken it \<Rightarrow>
          if hasEmptyRow (rows it) then ((m, 0), Some AttributeError)
          else (case updateChildren previous current
                       (map fst (filter (\<lambda>(q, c). classOf c = IndexItem)
                                   (childrenOf [] 0 (rows it))))
                       (rows it) 0 of
                  ((rs, modified), ex) \<Rightarrow> ((m, modified), ex))
      | ItemAt p \<Rightarrow>
          (case (itemAt m p, itemAt m (take 1 p)) of
             (Some it, Some root) \<Rightarrow>
               if hasEmptyRow (rows root) then ((m, 0), Some AttributeError)
               else updateChildren previous current
                      (map fst (filter (\<lambda>(q, c). q \<noteq> p \<and> classOf c = IndexItem)
                                  (childrenOf (take 1 p) 0 (rows root))))
                      m 0
           | _ \<Rightarrow> ((m, 0), Some RuntimeError)))"

text \<open>
  What the rename propagation is to achieve, in the words of the specification: in
  every item with parameters below the root of the renamed item, except the renamed
  item itself, every entry whose value is the old name gets the new name, and the
  entries rewritten are counted. \<open>ex\<close> is the path of the renamed item relative to the
  rows at hand, or None when it is not below them.
\<close>

definition rewriteParams :: "string \<Rightarrow> string \<Rightarrow> (string \<times> pyval) list \<Rightarrow> (string \<times> pyval) list" where
  "rewriteParams old new d = map (\<lambda>(k, v). (k, if v = PStr old then PStr new else v)) d"

definition countParams :: "string \<Rightarrow> (string \<times> pyval) list \<Rightarrow> nat" where
  "countParams old d = length (filter (\<lambda>(k, v). v = PStr old) d)"

fun below :: "path option \<Rightarrow> nat \<Rightarrow> path option" where
  "below (Some (j # p)) i = (if j = i then Some p else None)"
| "below ex i = None"

fun renamedRows :: "string \<Rightarrow> string \<Rightarrow> path option \<Rightarrow> nat \<Rightarrow> item option list \<Rightarrow> item option list" where
  "renamedRows old new ex i [] = []"
| "renamedRows old new ex i (None # rs) = None # renamedRows old new ex (Suc i) rs"
| "renamedRows old new ex i (Some (Item t cs cp fg a crs) # rs) =
     Some (Item t cs cp fg
             (case a of
                Index tn (PDict d) \<Rightarrow>
                  if below ex i = Some [] then a else Index tn (PDict (rewriteParams old new d))
              | _ \<Rightarrow> a)
             (renamedRows old new (below ex i) 0 crs))
       # renamedRows old new ex (Suc i) rs"

fun countedRows :: "string \<Rightarrow> path option \<Rightarrow> nat \<Rightarrow> item option list \<Rightarrow> nat" where
  "countedRows old ex i [] = 0"
| "countedRows old ex i (None # rs) = countedRows old ex (Suc i) rs"
| "countedRows old ex i (Some (Item t cs cp fg a crs) # rs) =
     (case a of
        Index tn (PDict d) \<Rightarrow> if below ex i = Some [] then 0 else countParams old d
      | _ \<Rightarrow> 0)
     + countedRows old (below ex i) 0 crs + countedRows old ex (Suc i) rs"

text \<open>
  The rows below which the loop of \<^verbatim>\<open>updateLines\<close> meets no exception: no empty
  row, and the parameters of every index a dictionary with each key once.
\<close>

fun plainRows :: "item option list \<Rightarrow> bool" where
  "plainRows [] = True"
| "plainRows (None # rs) = False"
| "plainRows (Some (Item t cs cp fg a crs) # rs) =
     ((case a of
         Index tn ps \<Rightarrow> (case ps of PDict d \<Rightarrow> distinct (map fst d) | _ \<Rightarrow> False)
       | _ \<Rightarrow> True)
      \<and> plainRows crs \<and> plainRows rs)"

text \<open>
  The paths, relative to the rows at hand, that the list comprehension of
  \<^verbatim>\<open>updateLines\<close> keeps.
\<close>

definition selected :: "path option \<Rightarrow> nat \<Rightarrow> item option list \<Rightarrow> path list" where
  "selected ex i rs =
     map fst (filter (\<lambda>(q, c). Some q \<noteq> ex \<and> classOf c = IndexItem) (childrenOf [] i rs))"

text \<open>
  A ticker whose field holds an index named X and, beside it, an index whose
  parameter \<^verbatim>\<open>in\<close> refers to X.
\<close>

definition renameModel :: "item option list" where
  "renameModel =
     [Some (Item ''IBM'' False False Original
        (Ticker (PInt 1) (PStr ''IBM'') (PStr []) (PStr []) (PStr []) (PStr []) (PFloat 0 0) (PStr []))
        [Some (Item ''last'' False False Original (Field (PInt 4))
           [Some (Item ''X'' False False Original
                    (Index (PStr ''EMA'') (PDict [(''in'', PStr ''last''), (''label'', PStr ''X'')])) []),
            Some (Item ''B'' False False Original
                    (Index (PStr ''MACD'') (PDict [(''in'', PStr ''X''), (''periods'', PInt 5)])) [])])])]"

subsection \<open>Naming an index after its type\<close>

text \<open>
  Strings as the code uses them: \<^verbatim>\<open>str.startswith\<close>, \<^verbatim>\<open>str.split\<close> with a
  separator, \<^verbatim>\<open>int\<close> of a string (white space around, an optional sign, decimal
  digits; anything else is a ValueError, here None) and \<^verbatim>\<open>'%s' % n\<close> of an
  integer.
\<close>

definition startswith :: "string \<Rightarrow> string \<Rightarrow> bool" where
  "startswith pre s = (take (length pre) s = pre)"

fun split :: "char \<Rightarrow> string \<Rightarrow> string list" where
  "split sep [] = [[]]"
| "split sep (c # s) =
     (if c = sep then [] # split sep s
      else (case split sep s of [] \<Rightarrow> [[c]] | w # ws \<Rightarrow> (c # w) # ws))"

definition isspace :: "char \<Rightarrow> bool" where
  "isspace c = (c \<in> set [CHR '' '', CHR 0x09, CHR 0x0A, CHR 0x0B, CHR 0x0C, CHR 0x0D])"

definition strip :: "string \<Rightarrow> string" where
  "strip s = rev (dropWhile isspace (rev (dropWhile isspace s)))"

definition digitValue :: "char \<Rightarrow> int option" where
  "digitValue c =
     map_of [(CHR ''0'', 0), (CHR ''1'', 1), (CHR ''2'', 2), (CHR ''3'', 3), (CHR ''4'', 4),
             (CHR ''5'', 5), (CHR ''6'', 6), (CHR ''7'', 7), (CHR ''8'', 8), (CHR ''9'', 9)] c"

fun digitsValue :: "int \<Rightarrow> string \<Rightarrow> int option" where
  "digitsValue acc [] = Some acc"
| "digitsValue acc (c # s) =
     (case digitValue c of None \<Rightarrow> None | Some d \<Rightarrow> digitsValue (10 * acc + d) s)"

definition py_int :: "string \<Rightarrow> int option" where
  "py_int s =
     (case strip s of
        [] \<Rightarrow> None
      | c # ds \<Rightarrow>
          if c = CHR ''-'' then (if ds = [] then None else map_option uminus (digitsValue 0 ds))
          else if c = CHR ''+'' then (if ds = [] then None else digitsValue 0 ds)
          else digitsValue 0 (c # ds))"

function digits :: "nat \<Rightarrow> string" where
  "digits n = (if n < 10 then [''0123456789'' ! n] else digits (n div 10) @ [''0123456789'' ! (n mod 10)])"
  by pat_completeness auto
termination
  by (relation "measure id") auto

definition py_str :: "int \<Rightarrow> string" where
  "py_str n = (if n < 0 then CHR ''-'' # digits (nat (- n)) else digits (nat n))"

text \<open>
  \<^verbatim>\<open>QStandardItemModel.findItems(text, Qt.MatchStartsWith | Qt.MatchRecursive)\<close>:
  the items of the whole model, at every depth, whose display text starts with the
  given text. Without \<^verbatim>\<open>Qt.MatchCaseSensitive\<close> Qt compares without regard to
  case, here for the letters A to Z. An empty row holds no item and is passed over.
\<close>

definition lower :: "char \<Rightarrow> char" where
  "lower c =
     (case map_of (zip ''ABCDEFGHIJKLMNOPQRSTUVWXYZ'' ''abcdefghijklmnopqrstuvwxyz'') c of
        None \<Rightarrow> c
      | Some l \<Rightarrow> l)"

definition findItems :: "item option list \<Rightarrow> string \<Rightarrow> (path \<times> item) list" where
  "findItems m pattern =
     filter (\<lambda>(q, it). startswith (map lower pattern) (map lower (textOf it)))
       (childrenOf [] 0 m)"

definition defaultText :: string where
  "defaultText = ''Unknown''"

text \<open>
  \<^verbatim>\<open>int(name.split('-')[1])\<close>: None where the source catches the IndexError of a
  name without a hyphen or the ValueError of \<^verbatim>\<open>int\<close>.
\<close>

definition offsetOf :: "string \<Rightarrow> int option" where
  "offsetOf nm = (case split CHR ''-'' nm of a # b # rest \<Rightarrow> py_int b | _ \<Rightarrow> None)"

text \<open>
  \<^verbatim>\<open>maybeChangeIndexName(item, previous)\<close>, with the text of the name widget as
  \<open>current\<close>: the text it sets the name widget to, or None when it leaves the widget
  alone. Two items have the same root when their paths start with the same row. An
  item that is no IndexItem has no \<^verbatim>\<open>typeName\<close>, and \<^verbatim>\<open>findItems\<close> takes a
  string.
\<close>

definition nextSuffix :: "path \<Rightarrow> (path \<times> item) list \<Rightarrow> int" where
  "nextSuffix p matches =
     foldl (\<lambda>suffix (q, match).
              if take 1 p = take 1 q
              then (case offsetOf (textOf match) of
                      None \<Rightarrow> suffix
                    | Some offset \<Rightarrow> max suffix (offset + 1))
              else suffix)
       1 matches"

definition maybeChangeIndexName :: "item option list \<Rightarrow> path \<Rightarrow> string \<Rightarrow> string
    \<Rightarrow> pyerr + string option" where
  "maybeChangeIndexName m p current previous =
     (if current \<in> set [defaultText, []] \<or> startswith (previous @ ''-'') current
      then (case itemAt m p of
              Some (Item t cs cp fg (Index (PStr tn) ps) rs) \<Rightarrow>
                Inr (Some (tn @ ''-'' @ py_str (nextSuffix p (findItems m tn))))
            | Some (Item t cs cp fg (Index tn ps) rs) \<Rightarrow> Inl TypeError
            | _ \<Rightarrow> Inl AttributeError)
      else Inr None)"

text \<open>
  The name as the specification words it: the type name, a hyphen, and one more than
  the greatest \<open>k\<close> among the items below the same root whose name is the type name,
  a hyphen and the decimal digits of \<open>k\<close>; 1 if there is none.
\<close>

definition specSuffixes :: "item option list \<Rightarrow> path \<Rightarrow> string \<Rightarrow> int list" where
  "specSuffixes m p tn =
     concat (map (\<lambda>(q, it).
                    if take 1 p = take 1 q \<and> startswith (tn @ ''-'') (textOf it)
                         \<and> drop (Suc (length tn)) (textOf it) \<noteq> []
                    then (case digitsValue 0 (drop (Suc (length tn)) (textOf it)) of
                            None \<Rightarrow> []
                          | Some k \<Rightarrow> [k])
                    else [])
             (childrenOf [] 0 m))"

definition specName :: "item option list \<Rightarrow> path \<Rightarrow> string \<Rightarrow> string" where
  "specName m p tn = tn @ ''-'' @ py_str (foldl max 0 (specSuffixes m p tn) + 1)"

text \<open>
  A field with three indexes: one freshly inserted and now of type Foo, and two named
  after a type and a number. In the first model those are Foo-1 and Foo-3, in the
  second Foo-1 and Foobar-9.
\<close>

definition namingModel :: "string \<Rightarrow> string \<Rightarrow> item option list" where
  "namingModel n1 n2 =
     [Some (Item ''IBM'' False False Original
        (Ticker (PInt 1) (PStr ''IBM'') (PStr []) (PStr []) (PStr []) (PStr []) (PFloat 0 0) (PStr []))
        [Some (Item ''last'' False False Original (Field (PInt 4))
           [Some (Item n1 False False Original (Index (PStr ''Foo'') (PDict [])) []),
            Some (Item n2 False False Original (Index (PStr ''Foobar'') (PDict [])) []),
            Some (Item ''Unknown'' False False Original (Index (PStr ''Foo'') (PDict [])) [])])])]"

subsection \<open>Editing actions\<close>

text \<open>
  The marks of the clipboard: \<^verbatim>\<open>setCopy\<close>, \<^verbatim>\<open>setCut\<close> and
  \<^verbatim>\<open>resetForeground\<close>, which restores the foreground and leaves the two flags as
  they are.
\<close>

fun setCopy :: "item \<Rightarrow> item" where
  "setCopy (Item t cs cp fg a rs) = Item t False True Blue a rs"

fun setCut :: "item \<Rightarrow> item" where
  "setCut (Item t cs cp fg a rs) = Item t True False Red a rs"

fun resetForeground :: "item \<Rightarrow> item" where
  "resetForeground (Item t cs cp fg a rs) = Item t cs cp Original a rs"

text \<open>
  On an object that has left the model the flags, which are Python attributes, are
  still set, and the call of \<^verbatim>\<open>setForeground\<close> raises.
\<close>

fun setCopyFlags :: "item \<Rightarrow> item" where
  "setCopyFlags (Item t cs cp fg a rs) = Item t False True fg a rs"

fun setCutFlags :: "item \<Rightarrow> item" where
  "setCutFlags (Item t cs cp fg a rs) = Item t True False fg a rs"

text \<open>
  A reference follows its object. \<open>under p c\<close>: the object at path \<open>c\<close> is the one at
  \<open>p\<close> or below it. After the row at \<open>p\<close> is removed from the model, a reference to an
  object at or below \<open>p\<close> holds a deleted object, and an object at or below a later
  row of the same parent is found one row earlier.
\<close>

definition under :: "path \<Rightarrow> path \<Rightarrow> bool" where
  "under p c = (take (length p) c = p)"

definition pathAfterRemove :: "path \<Rightarrow> path \<Rightarrow> path" where
  "pathAfterRemove p c =
     (let n = length p - 1
      in if n < length c \<and> take n c = take n p \<and> last p < c ! n
         then c[n := c ! n - 1] else c)"

definition refAfterRemove :: "item option list \<Rightarrow> path \<Rightarrow> itemRef \<Rightarrow> itemRef" where
  "refAfterRemove m p r =
     (case r of
        ItemAt c \<Rightarrow> if under p c then goneRef m r else ItemAt (pathAfterRemove p c)
      | _ \<Rightarrow> r)"

text \<open>
  \<^verbatim>\<open>on_actionCopy_triggered\<close> and \<^verbatim>\<open>on_actionCut_triggered\<close>. Each handler
  gives the window afterwards and the exception that left the handler, if any; the
  assignments made before an exception stay, and the flags set on a deleted object
  are set on that object, whichever reference holds it. The result is None where the
  handler would mark or unmark a taken object, which the development does not
  follow.
\<close>

definition on_actionCopy_triggered :: "designer \<Rightarrow> (designer \<times> pyerr option) option" where
  "on_actionCopy_triggered st =
     (if \<not> actionCopy st then Some (st, None)
      else (case clipItem st of
              Gone old \<Rightarrow> Some (st, Some RuntimeError)
            | Taken old \<Rightarrow> None
            | old \<Rightarrow>
                (let m = (case old of ItemAt c \<Rightarrow> modifyAt c resetForeground (model st)
                                    | _ \<Rightarrow> model st)
                 in (case editItem st of
                       NoItem \<Rightarrow>
                         Some (st\<lparr>model := m, clipItem := NoItem\<rparr>, Some AttributeError)
                     | ItemAt e \<Rightarrow>
                         Some (st\<lparr>model := modifyAt e setCopy m, clipItem := ItemAt e\<rparr>, None)
                     | Gone it \<Rightarrow>
                         Some (st\<lparr>model := m, clipItem := Gone (setCopyFlags it),
                                   editItem := Gone (setCopyFlags it)\<rparr>,
                               Some RuntimeError)
                     | Taken it \<Rightarrow> None))))"

definition on_actionCut_triggered :: "designer \<Rightarrow> (designer \<times> pyerr option) option" where
  "on_actionCut_triggered st =
     (if \<not> actionCut st then Some (st, None)
      else (case clipItem st of
              Gone old \<Rightarrow> Some (st, Some RuntimeError)
            | Taken old \<Rightarrow> None
            | old \<Rightarrow>
                (let m = (case old of ItemAt c \<Rightarrow> modifyAt c resetForeground (model st)
                                    | _ \<Rightarrow> model st)
                 in (case editItem st of
                       NoItem \<Rightarrow>
                         Some (st\<lparr>model := m, clipItem := NoItem\<rparr>, Some AttributeError)
                     | ItemAt e \<Rightarrow>
                         Some (st\<lparr>model := modifyAt e setCut m, clipItem := ItemAt e\<rparr>, None)
                     | Gone it \<Rightarrow>
                         Some (st\<lparr>model := m, clipItem := Gone (setCutFlags it),
                                   editItem := Gone (setCutFlags it)\<rparr>,
                               Some RuntimeError)
                     | Taken it \<Rightarrow> None))))"

text \<open>
  \<^verbatim>\<open>on_actionDelete_triggered\<close>: \<^verbatim>\<open>removeRow\<close> deletes the item with all below
  it. The handler does not look at \<^verbatim>\<open>clipItem\<close>. A taken item has an invalid
  index, for which \<^verbatim>\<open>removeRow\<close> removes nothing.
\<close>

definition on_actionDelete_triggered :: "designer \<Rightarrow> designer \<times> pyerr option" where
  "on_actionDelete_triggered st =
     (case editItem st of
        NoItem \<Rightarrow> (st, None)
      | Gone it \<Rightarrow> (st\<lparr>editItem := NoItem\<rparr>, Some RuntimeError)
      | Taken it \<Rightarrow> (enableActions (st\<lparr>editItem := NoItem\<rparr>) None, None)
      | ItemAt p \<Rightarrow>
          (enableActions
             (st\<lparr>editItem := NoItem,
                 model := atRows (butlast p) (removeRow (last p)) (model st),
                 clipItem := refAfterRemove (model st) p (clipItem st)\<rparr>) None,
           None))"





text \<open>A window that shows the model with the two indexes X and B under one field.\<close>

definition renameDesigner :: designer where
  "renameDesigner = emptyDesigner\<lparr>model := renameModel\<rparr>"




text \<open>An item without its rows: its text, flags, foreground and attributes.\<close>

definition stripRows :: "item \<Rightarrow> item" where
  "stripRows it = setRows it []"

text \<open>
  The example window with the item at a path selected: \<^verbatim>\<open>editItem\<close> is the item
  and the actions are as \<^verbatim>\<open>enableActions\<close> sets them for it. Then the window after
  the index B has been selected and copied, and the one with the index X, the first
  child of the field, selected.
\<close>

definition selectedDesigner :: "path \<Rightarrow> designer" where
  "selectedDesigner p = (enableActions renameDesigner (Some p))\<lparr>editItem := ItemAt p\<rparr>"

definition copiedDesigner :: designer where
  "copiedDesigner = fst (the (on_actionCopy_triggered (selectedDesigner [0, 0, 1])))"




section \<open>Properties\<close>

subsection \<open>C3: insertion legality\<close>

text \<open>
  C3. For every pair of a parent class and a child class, \<^verbatim>\<open>canInsert\<close> of the
  parent, asked about the child, answers True exactly for the five pairs root to
  callable, root to ticker, ticker to field, field to index and index to index. The
  root level is the base class \<open>SchemaItem\<close>. So a CallableItem accepts nothing,
  a TickerItem accepts only a FieldItem, and FieldItem and IndexItem accept only an
  IndexItem.
\<close>

theorem canInsert_legal_pairs:
  "canInsert p [c] \<longleftrightarrow>
     (p, c) \<in> {(SchemaItem, CallableItem), (SchemaItem, TickerItem),
               (TickerItem, FieldItem), (FieldItem, IndexItem), (IndexItem, IndexItem)}"
  by (cases p; cases c; simp add: rootTypes_def)

subsection \<open>C2: clone\<close>

text \<open>
  C2. Cloning an IndexItem A whose child B has one child C gives a clone of A whose
  child B has two copies of C: \<^verbatim>\<open>deepClone\<close> appends the children of every
  child a second time, after \<^verbatim>\<open>child.clone()\<close> has already cloned them. The
  claim that no child is duplicated fails on the code at this input.
\<close>

theorem clone_duplicates_grandchild:
  "clone (newIndexItem ''A'' [Some (newIndexItem ''B'' [Some (newIndexItem ''C'' [])])]) =
     Inr (newIndexItem ''A'' [Some (newIndexItem ''B''
            [Some (newIndexItem ''C'' []), Some (newIndexItem ''C'' [])])])"
  by (simp add: newIndexItem_def)

subsection \<open>C1: the schema round trip\<close>

lemma fromSchema_Indexes_buildAll: "fromSchema_Indexes xs = buildAll fromSchema_Index xs"
  by (induction xs) (auto split: sum.splits)

lemma roundtrip_Index:
  "wfIndex it \<Longrightarrow>
     (case toSchema it of Inl e \<Rightarrow> False | Inr s \<Rightarrow> fromSchema_Index s = Inr (unmark it))"
  "wfIndexRows rs \<Longrightarrow>
     (case toSchemaRows rs of
        Inl e \<Rightarrow> False
      | Inr ss \<Rightarrow> fromSchema_Indexes ss = Inr (unmarkRows rs))"
proof (induction it and rs rule: wfIndex_wfIndexRows.induct)
  case (1 t cs cp fg a rs)
  then show ?case
    by (auto simp: dict_get_def QStandardItem_init_def
          split: payload.splits pyval.splits sum.splits)
qed (auto split: sum.splits)

lemma roundtrip_Field:
  "wfField it \<Longrightarrow>
     (case toSchema it of Inl e \<Rightarrow> False | Inr s \<Rightarrow> fromSchema_Field s = Inr (unmark it))"
  using roundtrip_Index(2) [of "rows it"]
  by (cases it)
    (auto simp: dict_get_def fromSchema_Indexes_buildAll QStandardItem_init_def
          split: payload.splits pyval.splits sum.splits)

lemma roundtrip_FieldRows:
  "wfFieldRows rs \<Longrightarrow>
     (case toSchemaRows rs of
        Inl e \<Rightarrow> False
      | Inr ss \<Rightarrow> buildAll fromSchema_Field ss = Inr (unmarkRows rs))"
proof (induction rs rule: wfFieldRows.induct)
  case (3 child rs)
  then show ?case
    using roundtrip_Field [of child] by (auto split: sum.splits)
qed auto

lemma roundtrip_Root:
  "wfRoot it \<Longrightarrow>
     (case toSchema it of
        Inr (PDict d) \<Rightarrow>
          ''self'' \<notin> set (map fst d) \<and>
          addSchemaItem w d = Inr (w\<lparr>model := model w @ [Some (unmark it)]\<rparr>)
      | _ \<Rightarrow> False)"
proof (induction it rule: wfRoot.induct)
  case (1 t cs cp fg n ti sn sp et sr mt rs)
  then show ?case
    by (simp add: addSchemaItem_def dict_item_def addCallableItem_def
          fromSchema_Callable_def dict_get_def appendRow_def QStandardItem_init_def)
next
  case (2 t cs cp fg ti sy ex se ep ri sk cu rs)
  then show ?case
    using roundtrip_FieldRows [of rs]
    by (auto simp: addSchemaItem_def dict_item_def addTickerItem_def fromSchema_Ticker_def
          dict_get_def appendRow_def QStandardItem_init_def split: sum.splits)
qed auto

lemma roundtrip_Model:
  "wfModel m \<Longrightarrow>
     (case toSchemaRows m of
        Inl e \<Rightarrow> False
      | Inr ss \<Rightarrow> addSchemaItems w ss = (w\<lparr>model := model w @ unmarkRows m\<rparr>, None))"
proof (induction m arbitrary: w rule: wfModel.induct)
  case (3 it rs)
  then show ?case
    using roundtrip_Root [of it w] by (auto split: sum.splits pyval.splits)
qed auto

lemma noEmptyRow_Index:
  "wfIndex it \<Longrightarrow> \<not> hasEmptyRow (unmarkRows (rows it))"
  "wfIndexRows rs \<Longrightarrow> \<not> hasEmptyRow (unmarkRows rs)"
proof (induction it and rs rule: wfIndex_wfIndexRows.induct)
  case (4 child rs)
  then show ?case by (cases child) simp
qed auto

lemma noEmptyRow_FieldRows: "wfFieldRows rs \<Longrightarrow> \<not> hasEmptyRow (unmarkRows rs)"
proof (induction rs rule: wfFieldRows.induct)
  case (3 child rs)
  then show ?case
    using noEmptyRow_Index(2) [of "rows child"] by (cases child) simp
qed auto

lemma noEmptyRow_Model: "wfModel m \<Longrightarrow> \<not> hasEmptyRow (unmarkRows m)"
proof (induction m rule: wfModel.induct)
  case (3 it rs)
  then show ?case
    using noEmptyRow_FieldRows [of "rows it"] by (cases it rule: wfRoot.cases) auto
qed auto

text \<open>
  C1. For every document the editor can build (\<open>wfModel\<close>), \<^verbatim>\<open>schema()\<close> succeeds,
  and reading its result into a window with an empty model succeeds and builds the
  same rows in the same order: the same class, display text, attributes and
  parameters at every position, with the clip flags and the foreground cleared.
\<close>

theorem schema_roundtrip:
  assumes "wfModel (model src)" and "model dst = []"
  shows "\<exists>s. schema src = Inr s \<and>
             readSchema dst s = (dst\<lparr>model := unmarkRows (model src)\<rparr>, None)"
proof -
  from assms(1) obtain ss where ss: "toSchemaRows (model src) = Inr ss"
    and add: "addSchemaItems dst ss = (dst\<lparr>model := model dst @ unmarkRows (model src)\<rparr>, None)"
    using roundtrip_Model [of "model src" dst] by (auto split: sum.splits)
  from ss have "schema src = Inr (PList ss)"
    by (simp add: schema_def)
  moreover from add assms(2) noEmptyRow_Model [OF assms(1)]
  have "readSchema dst (PList ss) = (dst\<lparr>model := unmarkRows (model src)\<rparr>, None)"
    by (simp add: readSchema_def)
  ultimately show ?thesis by blast
qed

theorem schema_roundtrip_witness:
  "wfModel (model exampleDesigner) \<and> model emptyDesigner = [] \<and>
   (\<exists>s. schema exampleDesigner = Inr s \<and>
        readSchema emptyDesigner s =
          (emptyDesigner\<lparr>model := unmarkRows (model exampleDesigner)\<rparr>, None))"
proof -
  have a: "wfModel (model exampleDesigner)"
    by (simp add: exampleDesigner_def exampleTicker_def exampleCallable_def)
  have b: "model emptyDesigner = []"
    by (simp add: emptyDesigner_def)
  from schema_roundtrip [OF a b] a b show ?thesis by blast
qed

subsection \<open>C9: a schema that cannot be read\<close>







subsection \<open>C7: rename propagation\<close>

lemma update_middle:
  "k \<notin> fst ` set pre \<Longrightarrow> AList.update k x (pre @ (k, v) # rest) = pre @ (k, x) # rest"
  by (induction pre) auto

lemma updateItems_distinct:
  "distinct (map fst (pre @ kvs)) \<Longrightarrow>
     updateItems old new kvs (pre @ kvs) n =
       (pre @ rewriteParams old new kvs, n + countParams old kvs)"
proof (induction kvs arbitrary: pre n)
  case Nil
  then show ?case by (simp add: rewriteParams_def countParams_def)
next
  case (Cons kv kvs)
  obtain k v where kv: "kv = (k, v)" by (cases kv)
  from Cons.prems kv have notin: "k \<notin> fst ` set pre"
    by auto
  show ?case
  proof (cases "v = PStr old")
    case True
    from Cons.prems kv have d: "distinct (map fst ((pre @ [(k, PStr new)]) @ kvs))"
      by auto
    from Cons.IH [OF d, of "Suc n"] True kv notin show ?thesis
      by (simp add: update_middle rewriteParams_def countParams_def)
  next
    case False
    from Cons.prems kv have d: "distinct (map fst ((pre @ [(k, v)]) @ kvs))"
      by auto
    from Cons.IH [OF d, of n] False kv show ?thesis
      by (simp add: rewriteParams_def countParams_def)
  qed
qed

lemma updateChildren_append:
  "updateChildren old new (qs1 @ qs2) m n =
     (case updateChildren old new qs1 m n of
        ((m', n'), None) \<Rightarrow> updateChildren old new qs2 m' n'
      | r \<Rightarrow> r)"
  by (induction old new qs1 m n rule: updateChildren.induct)
     (auto split: option.splits item.splits payload.splits pyval.splits prod.splits)

lemma setRows_rows [simp]: "setRows it (rows it) = it"
  by (cases it) simp

lemma setRows_setRows [simp]: "setRows (setRows it a) b = setRows it b"
  by (cases it) simp

lemma rows_setRows [simp]: "rows (setRows it a) = a"
  by (cases it) simp

lemma rows_setParameters [simp]: "rows (setParameters ps it) = rows it"
  by (cases "(ps, it)" rule: setParameters.cases) auto

lemma list_update_same: "m ! r = x \<Longrightarrow> m[r := x] = m"
  by (metis list_update_id)

lemma updateChildren_below:
  "r < length m \<Longrightarrow> m ! r = Some it \<Longrightarrow> \<forall>q\<in>set qs. q \<noteq> [] \<Longrightarrow>
     updateChildren old new (map ((#) r) qs) m n =
       (case updateChildren old new qs (rows it) n of
          ((rs', n'), e) \<Rightarrow> ((m[r := Some (setRows it rs')], n'), e))"
proof (induction qs arbitrary: it m n)
  case Nil
  then show ?case by (simp add: list_update_same)
next
  case (Cons q qs)
  from Cons.prems have q: "q \<noteq> []" and qs: "\<forall>q\<in>set qs. q \<noteq> []" by auto
  from Cons.prems q have at: "itemAt m (r # q) = itemAt (rows it) q" by simp
  show ?case
  proof (cases "itemAt (rows it) q")
    case None
    with at Cons.prems show ?thesis by (simp add: list_update_same)
  next
    case (Some c)
    obtain t cs cp fg a crs where c: "c = Item t cs cp fg a crs" by (cases c)
    show ?thesis
    proof (cases "\<exists>tn d. a = Index tn (PDict d)")
      case False
      with at Some c Cons.prems show ?thesis
        by (auto simp: list_update_same split: payload.splits pyval.splits)
    next
      case True
      then obtain tn d where a: "a = Index tn (PDict d)" by blast
      obtain d' n' where u: "updateItems old new (AList.clearjunk d) d n = (d', n')"
        by (cases "updateItems old new (AList.clearjunk d) d n")
      let ?g = "setParameters (PDict d')"
      let ?it = "setRows it (modifyAt q ?g (rows it))"
      let ?m = "m[r := Some ?it]"
      from Cons.prems q have mod: "modifyAt (r # q) ?g m = ?m" by simp
      from Cons.prems have "r < length ?m" "?m ! r = Some ?it" by simp_all
      from Cons.IH [OF this qs, of n']
      have "updateChildren old new (map ((#) r) qs) ?m n' =
              (case updateChildren old new qs (modifyAt q ?g (rows it)) n' of
                 ((rs', n''), e) \<Rightarrow> ((m[r := Some (setRows it rs')], n''), e))"
        by simp
      with at Some c a u mod show ?thesis by simp
    qed
  qed
qed


lemma rows_induct [case_names Nil Empty Item]:
  assumes "P []"
    and "\<And>rs. P rs \<Longrightarrow> P (None # rs)"
    and "\<And>t cs cp fg a crs rs. P crs \<Longrightarrow> P rs \<Longrightarrow> P (Some (Item t cs cp fg a crs) # rs)"
  shows "P rs"
  by (rule childrenOf.induct [where P = "\<lambda>q i. P" and ?a0.0 = "[]" and ?a1.0 = 0])
     (auto intro: assms)

lemma childrenOf_prefix:
  "childrenOf q i rs = map (\<lambda>(p, c). (q @ p, c)) (childrenOf [] i rs)"
proof (induction rs arbitrary: q i rule: rows_induct)
  case (Item t cs cp fg a crs rs)
  have a: "childrenOf (q @ [i]) 0 crs = map (\<lambda>(p, c). ((q @ [i]) @ p, c)) (childrenOf [] 0 crs)"
    by (rule Item.IH(1))
  have b: "childrenOf [i] 0 crs = map (\<lambda>(p, c). ([i] @ p, c)) (childrenOf [] 0 crs)"
    by (rule Item.IH(1))
  have c: "childrenOf q (Suc i) rs = map (\<lambda>(p, c). (q @ p, c)) (childrenOf [] (Suc i) rs)"
    by (rule Item.IH(2))
  show ?case
    by (simp add: a b c case_prod_unfold)
next
  case (Empty rs)
  have "childrenOf q (Suc i) rs = map (\<lambda>(p, c). (q @ p, c)) (childrenOf [] (Suc i) rs)"
    by (rule Empty.IH)
  then show ?case by simp
qed simp

lemma childrenOf_nonempty: "(q, c) \<in> set (childrenOf [] i rs) \<Longrightarrow> q \<noteq> []"
  by (induction rs arbitrary: i rule: rows_induct)
     (auto simp: childrenOf_prefix [of "[_]"])

lemma selected_simps:
  "selected ex i [] = []"
  "selected ex i (Some (Item t cs cp fg a crs) # rs) =
     (if below ex i \<noteq> Some [] \<and> classOf (Item t cs cp fg a crs) = IndexItem then [[i]] else [])
     @ map ((#) i) (selected (below ex i) 0 crs) @ selected ex (Suc i) rs"
proof -
  show "selected ex i [] = []" by (simp add: selected_def)
  have own: "Some [i] \<noteq> ex \<longleftrightarrow> below ex i \<noteq> Some []"
    by (cases "(ex, i)" rule: below.cases) auto
  have sub: "Some (i # q) \<noteq> ex \<longleftrightarrow> Some q \<noteq> below ex i" for q
    by (cases "(ex, i)" rule: below.cases) auto
  show "selected ex i (Some (Item t cs cp fg a crs) # rs) =
     (if below ex i \<noteq> Some [] \<and> classOf (Item t cs cp fg a crs) = IndexItem then [[i]] else [])
     @ map ((#) i) (selected (below ex i) 0 crs) @ selected ex (Suc i) rs"
    unfolding selected_def
    by (simp add: childrenOf_prefix [of "[i]"] own sub filter_map comp_def case_prod_unfold)
qed


lemma selected_nonempty: "q \<in> set (selected ex i rs) \<Longrightarrow> q \<noteq> []"
  by (auto simp: selected_def dest: childrenOf_nonempty)

lemma updateChildren_rows:
  "plainRows rs \<Longrightarrow> length pre = i \<Longrightarrow>
     updateChildren old new (selected ex i rs) (pre @ rs) n =
       ((pre @ renamedRows old new ex i rs, n + countedRows old ex i rs), None)"
proof (induction rs arbitrary: pre i n ex rule: rows_induct)
  case Nil
  then show ?case by (simp add: selected_simps)
next
  case (Empty rs)
  then show ?case by simp
next
  case (Item t cs cp fg a crs rs)
  let ?c = "Item t cs cp fg a crs"
  let ?sel = "below ex i \<noteq> Some [] \<and> classOf ?c = IndexItem"
  define a' where "a' = (case a of
                Index tn (PDict d) \<Rightarrow>
                  if below ex i = Some [] then a else Index tn (PDict (rewriteParams old new d))
              | _ \<Rightarrow> a)"
  define k where "k = (case a of
        Index tn (PDict d) \<Rightarrow> if below ex i = Some [] then 0 else countParams old d
      | _ \<Rightarrow> 0)"
  let ?c1 = "Item t cs cp fg a' crs"
  from Item.prems have pc: "plainRows crs" and pr: "plainRows rs" by simp_all
  from Item.prems(2) have i: "i = length pre" by simp
  have at: "itemAt (pre @ Some ?c # rs) [i] = Some ?c"
    unfolding i by simp
  have own: "updateChildren old new (if ?sel then [[i]] else []) (pre @ Some ?c # rs) n =
               ((pre @ Some ?c1 # rs, n + k), None)"
  proof (cases ?sel)
    case False
    then have "a' = a" "k = 0"
      by (auto simp: a'_def k_def split: payload.splits pyval.splits)
    moreover from False have "(if ?sel then [[i]] else []) = ([]::path list)"
      by auto
    ultimately show ?thesis by (simp del: classOf.simps)
  next
    case True
    then obtain tn ps where a: "a = Index tn ps"
      by (cases a) auto
    with Item.prems(1) obtain d where ps: "ps = PDict d" and dist: "distinct (map fst d)"
      by (auto split: pyval.splits)
    from dist have "updateItems old new (AList.clearjunk d) d n =
                      (rewriteParams old new d, n + countParams old d)"
      using updateItems_distinct [of "[]" d old new n] by simp
    moreover have "modifyAt [i] (setParameters (PDict (rewriteParams old new d))) (pre @ Some ?c # rs)
                     = pre @ Some ?c1 # rs"
      using True a ps by (simp add: a'_def i)
    moreover have "k = countParams old d"
      using True a ps by (simp add: k_def)
    ultimately show ?thesis
      using True at a ps by simp
  qed
  have inner: "updateChildren old new (map ((#) i) (selected (below ex i) 0 crs))
                 (pre @ Some ?c1 # rs) (n + k) =
               ((pre @ Some (Item t cs cp fg a' (renamedRows old new (below ex i) 0 crs)) # rs,
                 n + k + countedRows old (below ex i) 0 crs), None)"
  proof -
    have "i < length (pre @ Some ?c1 # rs)" "(pre @ Some ?c1 # rs) ! i = Some ?c1"
      unfolding i by simp_all
    note lift = updateChildren_below [OF this, of "selected (below ex i) 0 crs" old new "n + k"]
    have "updateChildren old new (selected (below ex i) 0 crs) ([] @ crs) (n + k) =
            (([] @ renamedRows old new (below ex i) 0 crs,
              n + k + countedRows old (below ex i) 0 crs), None)"
      by (rule Item.IH(1) [OF pc]) simp
    with lift show ?thesis
      unfolding i by (simp add: selected_nonempty)
  qed
  have rest: "updateChildren old new (selected ex (Suc i) rs)
                 ((pre @ [Some (Item t cs cp fg a' (renamedRows old new (below ex i) 0 crs))]) @ rs)
                 (n + k + countedRows old (below ex i) 0 crs) =
               (((pre @ [Some (Item t cs cp fg a' (renamedRows old new (below ex i) 0 crs))])
                   @ renamedRows old new ex (Suc i) rs,
                 n + k + countedRows old (below ex i) 0 crs + countedRows old ex (Suc i) rs), None)"
    by (rule Item.IH(2) [OF pr]) (simp add: i)
  show ?case
    using own inner rest
    by (simp add: selected_simps updateChildren_append a'_def k_def del: updateChildren.simps)
qed

text \<open>
  C7. Let the renamed item be in the model, below a root whose subtree has no empty
  row and whose indexes have dictionaries as parameters. Then \<^verbatim>\<open>updateLines\<close>
  raises nothing; it changes nothing but the parameters of the indexes below that
  root other than the renamed item, where every entry whose value is the old name
  gets the new name (\<open>renamedRows\<close>); and it returns the number of entries it has
  rewritten (\<open>countedRows\<close>).
\<close>

theorem updateLines_propagates:
  assumes "itemAt m p = Some it" and "itemAt m (take 1 p) = Some root"
    and "plainRows (rows root)"
  shows "updateLines m (ItemAt p) old new =
           ((m[hd p := Some (setRows root (renamedRows old new (Some (tl p)) 0 (rows root)))],
             countedRows old (Some (tl p)) 0 (rows root)), None)"
proof -
  from assms(1) obtain r p' where p: "p = r # p'"
    by (cases p) auto
  from assms(2) p have r: "r < length m" "m ! r = Some root"
    by (auto split: if_splits option.splits)
  have noEmpty: "plainRows rs \<Longrightarrow> \<not> hasEmptyRow rs" for rs
    by (induction rs rule: rows_induct) auto
  have sel: "map fst (filter (\<lambda>(q, c). q \<noteq> p \<and> classOf c = IndexItem)
                        (childrenOf [r] 0 (rows root))) =
             map ((#) r) (selected (Some p') 0 (rows root))"
    by (simp add: selected_def childrenOf_prefix [of "[r]"] filter_map comp_def
          case_prod_unfold p)
  have "updateChildren old new (selected (Some p') 0 (rows root)) ([] @ rows root) 0 =
          (([] @ renamedRows old new (Some p') 0 (rows root),
            0 + countedRows old (Some p') 0 (rows root)), None)"
    by (rule updateChildren_rows [OF assms(3)]) simp
  with updateChildren_below [OF r, of "selected (Some p') 0 (rows root)" old new 0]
  have "updateChildren old new (map ((#) r) (selected (Some p') 0 (rows root))) m 0 =
          ((m[r := Some (setRows root (renamedRows old new (Some p') 0 (rows root)))],
            countedRows old (Some p') 0 (rows root)), None)"
    by (simp add: selected_nonempty)
  with assms noEmpty [OF assms(3)] sel p show ?thesis
    by (simp add: updateLines_def)
qed

text \<open>
  Renaming the index X of the example to Y rewrites the one entry of the other index
  that refers to X, leaves the entry of X itself that holds its own name, and
  returns 1.
\<close>

theorem updateLines_propagates_witness:
  "itemAt renameModel [0, 0, 0] \<noteq> None \<and> itemAt renameModel (take 1 [0, 0, 0]) \<noteq> None \<and>
   plainRows (rows (the (itemAt renameModel [0]))) \<and>
   updateLines renameModel (ItemAt [0, 0, 0]) ''X'' ''Y'' =
     (([Some (Item ''IBM'' False False Original
         (Ticker (PInt 1) (PStr ''IBM'') (PStr []) (PStr []) (PStr []) (PStr []) (PFloat 0 0) (PStr []))
         [Some (Item ''last'' False False Original (Field (PInt 4))
            [Some (Item ''X'' False False Original
                     (Index (PStr ''EMA'') (PDict [(''in'', PStr ''last''), (''label'', PStr ''X'')])) []),
             Some (Item ''B'' False False Original
                     (Index (PStr ''MACD'') (PDict [(''in'', PStr ''Y''), (''periods'', PInt 5)])) [])])])],
       1), None)"
proof -
  have a: "itemAt renameModel [0, 0, 0] =
             Some (Item ''X'' False False Original
                     (Index (PStr ''EMA'') (PDict [(''in'', PStr ''last''), (''label'', PStr ''X'')])) [])"
    by (simp add: renameModel_def)
  have b: "itemAt renameModel (take 1 [0, 0, 0]) = Some (the (itemAt renameModel [0]))"
    by (simp add: renameModel_def)
  have c: "plainRows (rows (the (itemAt renameModel [0])))"
    by (simp add: renameModel_def)
  from updateLines_propagates [OF a b c, of "''X''" "''Y''"] a b c show ?thesis
    by (simp add: renameModel_def rewriteParams_def countParams_def)
qed

subsection \<open>C8: the name given to a retyped index\<close>

lemma foldl_max_filter:
  "foldl (\<lambda>s x. case g x of None \<Rightarrow> s | Some k \<Rightarrow> max s k) a xs =
     Max (set (a # List.map_filter g xs))"
  for a :: int
proof (induction xs arbitrary: a)
  case Nil
  then show ?case by (simp add: List.map_filter_simps)
next
  case (Cons x xs)
  show ?case
  proof (cases "g x")
    case None
    with Cons.IH [of a] show ?thesis by (simp add: List.map_filter_simps)
  next
    case (Some k)
    have "Max (set (max a k # List.map_filter g xs)) = Max (set (a # k # List.map_filter g xs))"
      by (cases "set (List.map_filter g xs) = {}") (simp_all add: max.assoc)
    with Some Cons.IH [of "max a k"] show ?thesis by (simp add: List.map_filter_simps)
  qed
qed

lemma nextSuffix_Max:
  "nextSuffix p matches =
     Max (set (1 # List.map_filter
                 (\<lambda>(q, c). if take 1 p = take 1 q
                            then map_option (\<lambda>k. k + 1) (offsetOf (textOf c)) else None)
                 matches))"
proof -
  have "(\<lambda>suffix (q, match).
              if take 1 p = take 1 q
              then (case offsetOf (textOf match) of
                      None \<Rightarrow> suffix
                    | Some offset \<Rightarrow> max suffix (offset + 1))
              else suffix) =
        (\<lambda>s x. case (case x of (q, c) \<Rightarrow> if take 1 p = take 1 q
                            then map_option (\<lambda>k. k + 1) (offsetOf (textOf c)) else None) of
                  None \<Rightarrow> s | Some k \<Rightarrow> max s k)"
    by (auto simp: fun_eq_iff split: option.splits)
  then show ?thesis
    unfolding nextSuffix_def by (simp only: foldl_max_filter)
qed

text \<open>
  C8, as the code has it. When the name shown for an index is the placeholder, empty
  or starts with the previous type name and a hyphen, \<^verbatim>\<open>maybeChangeIndexName\<close>
  sets the name to the type name of the item, a string, a hyphen and N, where N is the greatest
  of 1 and the numbers \<open>k + 1\<close> for the items below the same root (the root included)
  that \<^verbatim>\<open>findItems\<close> returns for the type name, that is, whose text starts with the
  type name without regard to case, and the second field of whose text, split at
  hyphens, reads as the integer \<open>k\<close>.
\<close>

theorem maybeChangeIndexName_name:
  assumes "itemAt m p = Some it" and "attrs it = Index (PStr tn) ps"
    and "current = defaultText \<or> current = [] \<or> startswith (previous @ ''-'') current"
  shows "maybeChangeIndexName m p current previous =
           Inr (Some (tn @ ''-'' @
             py_str (Max (set (1 # List.map_filter
                   (\<lambda>(q, c). if take 1 p = take 1 q
                              then map_option (\<lambda>k. k + 1) (offsetOf (textOf c)) else None)
                   (findItems m tn))))))"
proof -
  from assms(1,2) obtain t cs cp fg rs
    where "itemAt m p = Some (Item t cs cp fg (Index (PStr tn) ps) rs)"
    by (cases it) auto
  with assms(3) show ?thesis
    by (auto simp: maybeChangeIndexName_def nextSuffix_Max)
qed

text \<open>With the indexes Foo-1 and Foo-3 below the same root, the new name is Foo-4.\<close>

theorem maybeChangeIndexName_name_witness:
  "itemAt (namingModel ''Foo-1'' ''Foo-3'') [0, 0, 2] =
     Some (Item ''Unknown'' False False Original (Index (PStr ''Foo'') (PDict [])) []) \<and>
   maybeChangeIndexName (namingModel ''Foo-1'' ''Foo-3'') [0, 0, 2] defaultText ''Bar'' =
     Inr (Some ''Foo-4'')"
proof -
  have a: "itemAt (namingModel ''Foo-1'' ''Foo-3'') [0, 0, 2] =
             Some (Item ''Unknown'' False False Original (Index (PStr ''Foo'') (PDict [])) [])"
    by (simp add: namingModel_def)
  have b: "attrs (Item ''Unknown'' False False Original (Index (PStr ''Foo'') (PDict [])) []) =
             Index (PStr ''Foo'') (PDict [])"
    by simp
  have c: "defaultText = defaultText \<or> defaultText = [] \<or> startswith (''Bar'' @ ''-'') defaultText"
    by simp
  have "py_str (Max (set (1 # List.map_filter
                   (\<lambda>(q, c). if take 1 [0, 0, 2] = take 1 q
                              then map_option (\<lambda>k. k + 1) (offsetOf (textOf c)) else None)
                   (findItems (namingModel ''Foo-1'' ''Foo-3'') ''Foo'')))) = ''4''"
    by (simp add: namingModel_def findItems_def startswith_def lower_def offsetOf_def
          py_int_def strip_def isspace_def digitValue_def py_str_def List.map_filter_simps)
  with maybeChangeIndexName_name [OF a b c] a show ?thesis
    by simp
qed

text \<open>
  The claim as stated fails: with the indexes Foo-1 and Foobar-9 below the same root,
  the only name of the form Foo-k is Foo-1, which asks for Foo-2, and the code sets
  Foo-10, since Foobar-9 starts with Foo and its second field is 9.
\<close>

theorem maybeChangeIndexName_counterexample:
  "maybeChangeIndexName (namingModel ''Foo-1'' ''Foobar-9'') [0, 0, 2] defaultText ''Bar'' =
     Inr (Some ''Foo-10'') \<and>
   specName (namingModel ''Foo-1'' ''Foobar-9'') [0, 0, 2] ''Foo'' = ''Foo-2''"
  by (simp add: maybeChangeIndexName_def namingModel_def defaultText_def findItems_def
        nextSuffix_def startswith_def lower_def offsetOf_def py_int_def strip_def isspace_def
        digitValue_def py_str_def specName_def specSuffixes_def)

subsection \<open>Paths, rows and references\<close>

lemma itemAt_rowsAt:
  "itemAt m p = Some it \<Longrightarrow>
     \<exists>rs. rowsAt m (butlast p) = Some rs \<and> last p < length rs \<and> rs ! last p = Some it"
proof (induction m p rule: itemAt.induct)
  case (1 rs)
  then show ?case by simp
next
  case (2 rs r p)
  show ?case
  proof (cases "p = []")
    case True
    with 2 show ?thesis by (auto simp: rowsAt_def split: if_splits option.splits)
  next
    case False
    with "2.prems" obtain c where c: "r < length rs" "rs ! r = Some c" "itemAt (rows c) p = Some it"
      by (auto split: if_splits option.splits)
    with False "2.IH" [of c] obtain rs' where
      "rowsAt (rows c) (butlast p) = Some rs'" "last p < length rs'" "rs' ! last p = Some it"
      by auto
    with c False show ?thesis
      by (cases "butlast p = []") (auto simp: rowsAt_def)
  qed
qed


lemma atRows_cong:
  "rowsAt m q = Some rs \<Longrightarrow> f rs = g rs \<Longrightarrow> atRows q f m = atRows q g m"
proof (induction q f m arbitrary: rs rule: atRows.induct)
  case (1 f rs)
  then show ?case by (simp add: rowsAt_def)
next
  case (2 r p f m)
  from "2.prems" obtain c where c: "r < length m" "m ! r = Some c"
    by (auto simp: rowsAt_def split: if_splits option.splits)
  show ?case
  proof (cases "p = []")
    case True
    with c "2.prems" show ?thesis by (cases c) (auto simp: rowsAt_def)
  next
    case False
    with c "2.prems" have "rowsAt (rows c) p = Some rs" by (auto simp: rowsAt_def)
    from "2.IH" [OF c(1) c(2) this "2.prems"(2)] c False show ?thesis
      by (cases c) (auto simp: rowsAt_def)
  qed
qed

lemma atRows_id:
  "rowsAt m q = Some rs \<Longrightarrow> f rs = rs \<Longrightarrow> atRows q f m = m"
proof (induction q f m arbitrary: rs rule: atRows.induct)
  case (1 f rs)
  then show ?case by (simp add: rowsAt_def)
next
  case (2 r p f m)
  from "2.prems" obtain c where c: "r < length m" "m ! r = Some c"
    by (auto simp: rowsAt_def split: if_splits option.splits)
  show ?case
  proof (cases "p = []")
    case True
    with c "2.prems" show ?thesis by (cases c) (auto simp: rowsAt_def list_update_same)
  next
    case False
    with c "2.prems" have "rowsAt (rows c) p = Some rs" by (auto simp: rowsAt_def)
    from "2.IH" [OF c(1) c(2) this "2.prems"(2)] c False show ?thesis
      by (cases c) (auto simp: rowsAt_def list_update_same)
  qed
qed

lemma enableActions_fields [simp]:
  "model (enableActions st i) = model st"
  "editItem (enableActions st i) = editItem st"
  "clipItem (enableActions st i) = clipItem st"
  by (auto simp: enableActions_def Let_def split: option.splits)




lemma stripRows_setRows [simp]: "stripRows (setRows it rs) = stripRows it"
  by (simp add: stripRows_def)














lemma itemAt_modifyAt_same:
  "itemAt m p = Some it \<Longrightarrow> itemAt (modifyAt p g m) p = Some (g it)"
proof (induction m p rule: itemAt.induct)
  case (1 rs)
  then show ?case by simp
next
  case (2 rs r p)
  then show ?case
    by (cases "p = []") (auto split: if_splits option.splits)
qed

lemma itemAt_modifyAt_keeps:
  assumes g: "\<And>it. rows (g it) = rows it" "\<And>it. f (g it) = f it"
    and f: "\<And>it rs. f (setRows it rs) = f it"
  shows "map_option f (itemAt (modifyAt p g m) c) = map_option f (itemAt m c)"
proof (induction p arbitrary: c m)
  case Nil
  then show ?case by simp
next
  case (Cons r p')
  show ?case
  proof (cases c)
    case Nil
    then show ?thesis by simp
  next
    case c: (Cons k c')
    show ?thesis
    proof (cases "r < length m")
      case False
      then show ?thesis by simp
    next
      case True
      show ?thesis
      proof (cases "m ! r")
        case None
        with True show ?thesis by simp
      next
        case (Some it)
        show ?thesis
        proof (cases "k = r")
          case False
          with True Some c show ?thesis by simp
        next
          case eq: True
          show ?thesis
          proof (cases "c' = []")
            case True
            with eq \<open>r < length m\<close> Some c show ?thesis
              by (simp add: g f)
          next
            case False
            with eq \<open>r < length m\<close> Some c Cons.IH [of "rows it" c'] show ?thesis
              by (simp add: g)
          qed
        qed
      qed
    qed
  qed
qed

lemma classOf_setRows [simp]: "classOf (setRows it rs) = classOf it"
  by (cases it rule: classOf.cases) simp_all

lemma marks_simps [simp]:
  "rows (setCut it) = rows it" "classOf (setCut it) = classOf it"
  "rows (setCopy it) = rows it" "classOf (setCopy it) = classOf it"
  "rows (resetForeground it) = rows it" "classOf (resetForeground it) = classOf it"
  "cutSource (setCut it) = True" "foreground (setCut it) = Red"
  "cutSource (resetForeground it) = cutSource it"
  "copySource (resetForeground it) = copySource it"
  "foreground (resetForeground it) = Original"
  by (cases it rule: classOf.cases; simp)+





subsection \<open>C10: moving an item among its siblings\<close>


subsection \<open>C6: deleting an item\<close>

text \<open>
  C6. The index B has been selected and copied, so it is the clip, and is selected
  still. The handler of Delete removes its row from the rows of the field, raises
  nothing and sets \<^verbatim>\<open>editItem\<close> to None; it does not set \<^verbatim>\<open>clipItem\<close>, which
  goes on holding B, an object the model has deleted. The clip is not cleared, and
  with the index X selected afterwards the handler of Copy raises RuntimeError at
  \<^verbatim>\<open>self.clipItem.resetForeground()\<close> and changes nothing.
\<close>

theorem delete_leaves_clip_on_deleted_item:
  "clipItem copiedDesigner = ItemAt [0, 0, 1] \<and>
   editItem copiedDesigner = ItemAt [0, 0, 1] \<and>
   snd (on_actionDelete_triggered copiedDesigner) = None \<and>
   rowsAt (model (fst (on_actionDelete_triggered copiedDesigner))) [0, 0] =
     Some [Some (Item ''X'' False False Original
                   (Index (PStr ''EMA'') (PDict [(''in'', PStr ''last''), (''label'', PStr ''X'')]))
                   [])] \<and>
   editItem (fst (on_actionDelete_triggered copiedDesigner)) = NoItem \<and>
   clipItem (fst (on_actionDelete_triggered copiedDesigner)) =
     Gone (Item ''B'' False True Blue
             (Index (PStr ''MACD'') (PDict [(''in'', PStr ''X''), (''periods'', PInt 5)])) []) \<and>
   on_actionCopy_triggered
     ((enableActions (fst (on_actionDelete_triggered copiedDesigner)) (Some [0, 0, 0]))
        \<lparr>editItem := ItemAt [0, 0, 0]\<rparr>) =
     Some ((enableActions (fst (on_actionDelete_triggered copiedDesigner)) (Some [0, 0, 0]))
             \<lparr>editItem := ItemAt [0, 0, 0]\<rparr>,
           Some RuntimeError)"
  by (simp add: copiedDesigner_def selectedDesigner_def on_actionCopy_triggered_def
        on_actionDelete_triggered_def refAfterRemove_def goneRef_def under_def removeRow_def
        enableActions_def renameDesigner_def renameModel_def emptyDesigner_def Let_def
        rowsAt_def)

subsection \<open>C4: cut and paste\<close>

lemma cut_marks_item:
  assumes "actionCut st" and "editItem st = ItemAt p" and "itemAt (model st) p = Some node"
    and "clipItem st = NoItem \<or> (\<exists>c. clipItem st = ItemAt c)"
  shows "\<exists>st' node'. on_actionCut_triggered st = Some (st', None) \<and> clipItem st' = ItemAt p \<and>
           editItem st' = ItemAt p \<and> itemAt (model st') p = Some (setCut node') \<and>
           classOf node' = classOf node"
proof -
  define m' where "m' = (case clipItem st of ItemAt c \<Rightarrow> modifyAt c resetForeground (model st)
                                    | _ \<Rightarrow> model st)"
  from assms have cut: "on_actionCut_triggered st =
      Some (st\<lparr>model := modifyAt p setCut m', clipItem := ItemAt p\<rparr>, None)"
    by (cases "clipItem st") (auto simp: on_actionCut_triggered_def m'_def)
  have "map_option classOf (itemAt m' p) = map_option classOf (itemAt (model st) p)"
    unfolding m'_def
    by (cases "clipItem st") (simp_all add: itemAt_modifyAt_keeps [where f = classOf])
  with assms(3) obtain node' where n': "itemAt m' p = Some node'" "classOf node' = classOf node"
    by auto
  from cut assms(2) n' itemAt_modifyAt_same [OF n'(1), of setCut] show ?thesis
    by auto
qed




end
